theory Spec2Isabelle
  imports Main
begin

section \<open>The unstructured wrapper client of pkg/resource/unstructured/client.go\<close>

text \<open>
  The package is a decorator over controller-runtime's \<^verbatim>\<open>client.Client\<close>. Every method
  probes its object argument with a comma-ok type assertion for the \<^verbatim>\<open>Wrapper\<close>
  (for \<^verbatim>\<open>List\<close>: the \<^verbatim>\<open>ListWrapper\<close>) interface and calls the same method of the
  wrapped client, on the pointer the accessor returns when the assertion succeeds and on
  the original argument otherwise.

  The wrapped client, the status writer it hands out and the accessor methods of the
  callers' types are code outside the package: they are parameters of the model, functions
  over a state \<open>'w\<close> that stands for everything such code can read and write (the heap
  the objects live in, the cluster behind the client). The package's own code never
  inspects that state, so the definitions of its methods are polymorphic in it.

  The field \<^verbatim>\<open>kube\<close> of either struct holds an interface value; the model takes it to
  be a client, that is the methods of a non-nil value. Calling a method through a nil
  \<^verbatim>\<open>kube\<close> panics in the same way as calling it on the nil client directly would.
\<close>

subsection \<open>Pointers, outcomes of calls\<close>

type_synonym addr = nat

text \<open>A Go pointer: \<^verbatim>\<open>nil\<close> or the address of a value.\<close>

datatype ptr = Nil | Ptr addr

text \<open>
  A call of foreign code either panics or returns a value together with the state it
  leaves behind. A panic of a callee unwinds through the package's methods, none of which
  recovers.
\<close>

datatype 'a outcome = Panic | Return 'a

type_synonym ('a, 'w) effect = "'w \<Rightarrow> ('a \<times> 'w) outcome"

text \<open>Go's \<^verbatim>\<open>error\<close>: \<open>None\<close> is the nil error.\<close>

type_synonym error = "string option"

subsection \<open>The value types that pass through unchanged\<close>

text \<open>
  Contexts, keys, patches, options, schemes and REST mappers are declared by the imported
  packages. The methods hand them on without looking at them; the model gives each its
  own type so that nothing but the value received can be forwarded.
\<close>

datatype Context = Context string

record ObjectKey =
  Namespace :: string
  Name :: string

datatype PatchValue = PatchValue string string

datatype GetOption = GetOption string
datatype ListOption = ListOption string
datatype CreateOption = CreateOption string
datatype DeleteOption = DeleteOption string
datatype UpdateOption = UpdateOption string
datatype PatchOption = PatchOption string
datatype DeleteAllOfOption = DeleteAllOfOption string

datatype RESTMapperValue = NilMapper | Mapper string

subsection \<open>Interface values and the two capabilities\<close>

text \<open>
  A non-nil interface value is a dynamic type and a pointer to the data. The dynamic type
  fixes the method set: \<open>GetUnstructured T\<close> is the type's implementation of the
  \<^verbatim>\<open>Wrapper\<close> method, taking the receiver, and is \<open>None\<close> when the type has no such
  method; likewise \<open>GetUnstructuredList T\<close> for \<^verbatim>\<open>ListWrapper\<close>. The implementations are
  the callers' code: they may return any pointer, \<^verbatim>\<open>nil\<close> included, may change the state
  and may panic.
\<close>

record 'w dyn_type =
  type_name :: string
  GetUnstructured :: "(ptr \<Rightarrow> (ptr, 'w) effect) option"
  GetUnstructuredList :: "(ptr \<Rightarrow> (ptr, 'w) effect) option"

text \<open>
  A value of static type \<^verbatim>\<open>client.Object\<close> or \<^verbatim>\<open>client.ObjectList\<close>: the nil
  interface, or a dynamic type with its data pointer.
\<close>

datatype 'w iface = NilIface | Iface "'w dyn_type" ptr

text \<open>
  \<^verbatim>\<open>*unstructured.Unstructured\<close> and \<^verbatim>\<open>*unstructured.UnstructuredList\<close> of apimachinery
  declare neither accessor. Passing a pointer of these types where an interface is
  expected yields a non-nil interface value, also when the pointer is \<^verbatim>\<open>nil\<close>.
\<close>

definition Unstructured_type :: "'w dyn_type" where
  "Unstructured_type =
     \<lparr>type_name = ''*unstructured.Unstructured'',
      GetUnstructured = None, GetUnstructuredList = None\<rparr>"

definition UnstructuredList_type :: "'w dyn_type" where
  "UnstructuredList_type =
     \<lparr>type_name = ''*unstructured.UnstructuredList'',
      GetUnstructured = None, GetUnstructuredList = None\<rparr>"

definition Unstructured :: "ptr \<Rightarrow> 'w iface" where
  "Unstructured p = Iface Unstructured_type p"

definition UnstructuredList :: "ptr \<Rightarrow> 'w iface" where
  "UnstructuredList p = Iface UnstructuredList_type p"

text \<open>
  The type assertions \<^verbatim>\<open>u, ok := obj.(Wrapper)\<close> and \<^verbatim>\<open>u, ok := list.(ListWrapper)\<close>.
  \<open>Some u\<close> is \<^verbatim>\<open>ok\<close>, with \<open>u\<close> the accessor bound to the receiver; \<open>None\<close> is
  \<^verbatim>\<open>!ok\<close>, which is also the answer for the nil interface. The comma-ok form never
  panics.
\<close>

fun as_Wrapper :: "'w iface \<Rightarrow> (ptr, 'w) effect option" where
  "as_Wrapper NilIface = None"
| "as_Wrapper (Iface T p) =
     (case GetUnstructured T of None \<Rightarrow> None | Some m \<Rightarrow> Some (m p))"

fun as_ListWrapper :: "'w iface \<Rightarrow> (ptr, 'w) effect option" where
  "as_ListWrapper NilIface = None"
| "as_ListWrapper (Iface T p) =
     (case GetUnstructuredList T of None \<Rightarrow> None | Some m \<Rightarrow> Some (m p))"

subsection \<open>The wrapped collaborators\<close>

text \<open>
  \<^verbatim>\<open>client.StatusWriter\<close> and \<^verbatim>\<open>client.Client\<close> of controller-runtime, as the methods
  the package calls. Each method returns its error and the state it leaves.
\<close>

record 'w StatusWriter =
  writer_Update :: "Context \<Rightarrow> 'w iface \<Rightarrow> UpdateOption list \<Rightarrow> (error, 'w) effect"
  writer_Patch :: "Context \<Rightarrow> 'w iface \<Rightarrow> PatchValue \<Rightarrow> PatchOption list \<Rightarrow> (error, 'w) effect"

record 'w Client =
  client_Get :: "Context \<Rightarrow> ObjectKey \<Rightarrow> 'w iface \<Rightarrow> GetOption list \<Rightarrow> (error, 'w) effect"
  client_List :: "Context \<Rightarrow> 'w iface \<Rightarrow> ListOption list \<Rightarrow> (error, 'w) effect"
  client_Create :: "Context \<Rightarrow> 'w iface \<Rightarrow> CreateOption list \<Rightarrow> (error, 'w) effect"
  client_Delete :: "Context \<Rightarrow> 'w iface \<Rightarrow> DeleteOption list \<Rightarrow> (error, 'w) effect"
  client_Update :: "Context \<Rightarrow> 'w iface \<Rightarrow> UpdateOption list \<Rightarrow> (error, 'w) effect"
  client_Patch :: "Context \<Rightarrow> 'w iface \<Rightarrow> PatchValue \<Rightarrow> PatchOption list \<Rightarrow> (error, 'w) effect"
  client_DeleteAllOf :: "Context \<Rightarrow> 'w iface \<Rightarrow> DeleteAllOfOption list \<Rightarrow> (error, 'w) effect"
  client_Status :: "('w StatusWriter, 'w) effect"
  client_Scheme :: "(ptr, 'w) effect"
  client_RESTMapper :: "(RESTMapperValue, 'w) effect"

subsection \<open>The two structs\<close>

record 'w WrapperClient =
  kube :: "'w Client"

record 'w wrapperStatusClient =
  kube :: "'w StatusWriter"

subsection \<open>WrapperClient\<close>

definition NewClient :: "'w Client \<Rightarrow> 'w WrapperClient" where
  "NewClient c = \<lparr>WrapperClient.kube = c\<rparr>"

definition Get ::
  "'w WrapperClient \<Rightarrow> Context \<Rightarrow> ObjectKey \<Rightarrow> 'w iface \<Rightarrow> GetOption list \<Rightarrow> (error, 'w) effect"
where
  "Get c ctx key obj opts w =
     (case as_Wrapper obj of
        Some u \<Rightarrow>
          (case u w of
             Panic \<Rightarrow> Panic
           | Return (p, w') \<Rightarrow> client_Get (WrapperClient.kube c) ctx key (Unstructured p) opts w')
      | None \<Rightarrow> client_Get (WrapperClient.kube c) ctx key obj opts w)"

definition List ::
  "'w WrapperClient \<Rightarrow> Context \<Rightarrow> 'w iface \<Rightarrow> ListOption list \<Rightarrow> (error, 'w) effect"
where
  "List c ctx list opts w =
     (case as_ListWrapper list of
        Some u \<Rightarrow>
          (case u w of
             Panic \<Rightarrow> Panic
           | Return (p, w') \<Rightarrow> client_List (WrapperClient.kube c) ctx (UnstructuredList p) opts w')
      | None \<Rightarrow> client_List (WrapperClient.kube c) ctx list opts w)"

definition Create ::
  "'w WrapperClient \<Rightarrow> Context \<Rightarrow> 'w iface \<Rightarrow> CreateOption list \<Rightarrow> (error, 'w) effect"
where
  "Create c ctx obj opts w =
     (case as_Wrapper obj of
        Some u \<Rightarrow>
          (case u w of
             Panic \<Rightarrow> Panic
           | Return (p, w') \<Rightarrow> client_Create (WrapperClient.kube c) ctx (Unstructured p) opts w')
      | None \<Rightarrow> client_Create (WrapperClient.kube c) ctx obj opts w)"

definition Delete ::
  "'w WrapperClient \<Rightarrow> Context \<Rightarrow> 'w iface \<Rightarrow> DeleteOption list \<Rightarrow> (error, 'w) effect"
where
  "Delete c ctx obj opts w =
     (case as_Wrapper obj of
        Some u \<Rightarrow>
          (case u w of
             Panic \<Rightarrow> Panic
           | Return (p, w') \<Rightarrow> client_Delete (WrapperClient.kube c) ctx (Unstructured p) opts w')
      | None \<Rightarrow> client_Delete (WrapperClient.kube c) ctx obj opts w)"

definition Update ::
  "'w WrapperClient \<Rightarrow> Context \<Rightarrow> 'w iface \<Rightarrow> UpdateOption list \<Rightarrow> (error, 'w) effect"
where
  "Update c ctx obj opts w =
     (case as_Wrapper obj of
        Some u \<Rightarrow>
          (case u w of
             Panic \<Rightarrow> Panic
           | Return (p, w') \<Rightarrow> client_Update (WrapperClient.kube c) ctx (Unstructured p) opts w')
      | None \<Rightarrow> client_Update (WrapperClient.kube c) ctx obj opts w)"

definition Patch ::
  "'w WrapperClient \<Rightarrow> Context \<Rightarrow> 'w iface \<Rightarrow> PatchValue \<Rightarrow> PatchOption list \<Rightarrow> (error, 'w) effect"
where
  "Patch c ctx obj patch opts w =
     (case as_Wrapper obj of
        Some u \<Rightarrow>
          (case u w of
             Panic \<Rightarrow> Panic
           | Return (p, w') \<Rightarrow>
               client_Patch (WrapperClient.kube c) ctx (Unstructured p) patch opts w')
      | None \<Rightarrow> client_Patch (WrapperClient.kube c) ctx obj patch opts w)"

definition DeleteAllOf ::
  "'w WrapperClient \<Rightarrow> Context \<Rightarrow> 'w iface \<Rightarrow> DeleteAllOfOption list \<Rightarrow> (error, 'w) effect"
where
  "DeleteAllOf c ctx obj opts w =
     (case as_Wrapper obj of
        Some u \<Rightarrow>
          (case u w of
             Panic \<Rightarrow> Panic
           | Return (p, w') \<Rightarrow>
               client_DeleteAllOf (WrapperClient.kube c) ctx (Unstructured p) opts w')
      | None \<Rightarrow> client_DeleteAllOf (WrapperClient.kube c) ctx obj opts w)"

text \<open>
  \<^verbatim>\<open>Status\<close> calls the wrapped client's \<^verbatim>\<open>Status()\<close> and puts the writer it gets into
  a new \<^verbatim>\<open>wrapperStatusClient\<close>.
\<close>

definition Status :: "'w WrapperClient \<Rightarrow> ('w wrapperStatusClient, 'w) effect" where
  "Status c w =
     (case client_Status (WrapperClient.kube c) w of
        Panic \<Rightarrow> Panic
      | Return (sw, w') \<Rightarrow> Return (\<lparr>wrapperStatusClient.kube = sw\<rparr>, w'))"

definition Scheme :: "'w WrapperClient \<Rightarrow> (ptr, 'w) effect" where
  "Scheme c w = client_Scheme (WrapperClient.kube c) w"

definition RESTMapper :: "'w WrapperClient \<Rightarrow> (RESTMapperValue, 'w) effect" where
  "RESTMapper c w = client_RESTMapper (WrapperClient.kube c) w"

subsection \<open>wrapperStatusClient\<close>

definition wrapperStatusClient_Update ::
  "'w wrapperStatusClient \<Rightarrow> Context \<Rightarrow> 'w iface \<Rightarrow> UpdateOption list \<Rightarrow> (error, 'w) effect"
where
  "wrapperStatusClient_Update c ctx obj opts w =
     (case as_Wrapper obj of
        Some u \<Rightarrow>
          (case u w of
             Panic \<Rightarrow> Panic
           | Return (p, w') \<Rightarrow>
               writer_Update (wrapperStatusClient.kube c) ctx (Unstructured p) opts w')
      | None \<Rightarrow> writer_Update (wrapperStatusClient.kube c) ctx obj opts w)"

definition wrapperStatusClient_Patch ::
  "'w wrapperStatusClient \<Rightarrow> Context \<Rightarrow> 'w iface \<Rightarrow> PatchValue \<Rightarrow> PatchOption list \<Rightarrow> (error, 'w) effect"
where
  "wrapperStatusClient_Patch c ctx obj patch opts w =
     (case as_Wrapper obj of
        Some u \<Rightarrow>
          (case u w of
             Panic \<Rightarrow> Panic
           | Return (p, w') \<Rightarrow>
               writer_Patch (wrapperStatusClient.kube c) ctx (Unstructured p) patch opts w')
      | None \<Rightarrow> writer_Patch (wrapperStatusClient.kube c) ctx obj patch opts w)"

subsection \<open>Sequences of calls on one WrapperClient\<close>

text \<open>
  The ten methods of \<^verbatim>\<open>*WrapperClient\<close> as requests, and what each hands back.
\<close>

datatype 'w request =
    GetRequest Context ObjectKey "'w iface" "GetOption list"
  | ListRequest Context "'w iface" "ListOption list"
  | CreateRequest Context "'w iface" "CreateOption list"
  | DeleteRequest Context "'w iface" "DeleteOption list"
  | UpdateRequest Context "'w iface" "UpdateOption list"
  | PatchRequest Context "'w iface" PatchValue "PatchOption list"
  | DeleteAllOfRequest Context "'w iface" "DeleteAllOfOption list"
  | StatusRequest
  | SchemeRequest
  | RESTMapperRequest

datatype 'w reply =
    ErrorReply error
  | StatusReply "'w wrapperStatusClient"
  | SchemeReply ptr
  | RESTMapperReply RESTMapperValue

definition returning :: "('a \<Rightarrow> 'b) \<Rightarrow> ('a \<times> 'w) outcome \<Rightarrow> ('b \<times> 'w) outcome" where
  "returning f r = (case r of Panic \<Rightarrow> Panic | Return (x, w) \<Rightarrow> Return (f x, w))"

text \<open>
  The methods have the pointer receiver \<^verbatim>\<open>c *WrapperClient\<close>. \<open>invoke\<close> returns, next
  to the reply, the struct behind \<^verbatim>\<open>c\<close> as the method leaves it; no method body assigns
  to \<^verbatim>\<open>c.kube\<close>, so that is the struct it was called on.
\<close>

fun invoke :: "'w WrapperClient \<Rightarrow> 'w request \<Rightarrow> ('w reply \<times> 'w WrapperClient, 'w) effect" where
  "invoke c (GetRequest ctx key obj opts) w =
     returning (\<lambda>e. (ErrorReply e, c)) (Get c ctx key obj opts w)"
| "invoke c (ListRequest ctx list opts) w =
     returning (\<lambda>e. (ErrorReply e, c)) (List c ctx list opts w)"
| "invoke c (CreateRequest ctx obj opts) w =
     returning (\<lambda>e. (ErrorReply e, c)) (Create c ctx obj opts w)"
| "invoke c (DeleteRequest ctx obj opts) w =
     returning (\<lambda>e. (ErrorReply e, c)) (Delete c ctx obj opts w)"
| "invoke c (UpdateRequest ctx obj opts) w =
     returning (\<lambda>e. (ErrorReply e, c)) (Update c ctx obj opts w)"
| "invoke c (PatchRequest ctx obj patch opts) w =
     returning (\<lambda>e. (ErrorReply e, c)) (Patch c ctx obj patch opts w)"
| "invoke c (DeleteAllOfRequest ctx obj opts) w =
     returning (\<lambda>e. (ErrorReply e, c)) (DeleteAllOf c ctx obj opts w)"
| "invoke c StatusRequest w = returning (\<lambda>s. (StatusReply s, c)) (Status c w)"
| "invoke c SchemeRequest w = returning (\<lambda>s. (SchemeReply s, c)) (Scheme c w)"
| "invoke c RESTMapperRequest w = returning (\<lambda>m. (RESTMapperReply m, c)) (RESTMapper c w)"

text \<open>
  A caller making one request after the other on the same pointer; a panic ends the
  sequence.
\<close>

fun run ::
  "'w WrapperClient \<Rightarrow> 'w request list \<Rightarrow> ('w reply list \<times> 'w WrapperClient, 'w) effect"
where
  "run c [] w = Return (([], c), w)"
| "run c (r # rs) w =
     (case invoke c r w of
        Panic \<Rightarrow> Panic
      | Return ((x, c'), w') \<Rightarrow> returning (\<lambda>(xs, c''). (x # xs, c'')) (run c' rs w'))"

subsection \<open>The contract in the specification's words\<close>

text \<open>
  The specification describes each method in two steps: replace the argument by the
  reference it exposes when it has the capability, then make the identical call on the
  underlying client. \<open>exposed\<close> and \<open>exposed_list\<close> are the first step,
  \<open>call_client\<close> is the second, on a client given once and for all.
\<close>

definition exposed :: "'w iface \<Rightarrow> ('w iface, 'w) effect" where
  "exposed obj w =
     (case as_Wrapper obj of
        None \<Rightarrow> Return (obj, w)
      | Some u \<Rightarrow> returning Unstructured (u w))"

definition exposed_list :: "'w iface \<Rightarrow> ('w iface, 'w) effect" where
  "exposed_list list w =
     (case as_ListWrapper list of
        None \<Rightarrow> Return (list, w)
      | Some u \<Rightarrow> returning UnstructuredList (u w))"

definition after :: "('a, 'w) effect \<Rightarrow> ('a \<Rightarrow> ('b, 'w) effect) \<Rightarrow> ('b, 'w) effect" where
  "after f g w = (case f w of Panic \<Rightarrow> Panic | Return (x, w') \<Rightarrow> g x w')"

fun call_client :: "'w Client \<Rightarrow> 'w request \<Rightarrow> ('w reply, 'w) effect" where
  "call_client k (GetRequest ctx key obj opts) =
     after (exposed obj) (\<lambda>x w. returning ErrorReply (client_Get k ctx key x opts w))"
| "call_client k (ListRequest ctx list opts) =
     after (exposed_list list) (\<lambda>x w. returning ErrorReply (client_List k ctx x opts w))"
| "call_client k (CreateRequest ctx obj opts) =
     after (exposed obj) (\<lambda>x w. returning ErrorReply (client_Create k ctx x opts w))"
| "call_client k (DeleteRequest ctx obj opts) =
     after (exposed obj) (\<lambda>x w. returning ErrorReply (client_Delete k ctx x opts w))"
| "call_client k (UpdateRequest ctx obj opts) =
     after (exposed obj) (\<lambda>x w. returning ErrorReply (client_Update k ctx x opts w))"
| "call_client k (PatchRequest ctx obj patch opts) =
     after (exposed obj) (\<lambda>x w. returning ErrorReply (client_Patch k ctx x patch opts w))"
| "call_client k (DeleteAllOfRequest ctx obj opts) =
     after (exposed obj) (\<lambda>x w. returning ErrorReply (client_DeleteAllOf k ctx x opts w))"
| "call_client k StatusRequest =
     (\<lambda>w. returning (\<lambda>sw. StatusReply \<lparr>wrapperStatusClient.kube = sw\<rparr>) (client_Status k w))"
| "call_client k SchemeRequest = (\<lambda>w. returning SchemeReply (client_Scheme k w))"
| "call_client k RESTMapperRequest = (\<lambda>w. returning RESTMapperReply (client_RESTMapper k w))"

fun call_client_all :: "'w Client \<Rightarrow> 'w request list \<Rightarrow> ('w reply list, 'w) effect" where
  "call_client_all k [] w = Return ([], w)"
| "call_client_all k (r # rs) w =
     (case call_client k r w of
        Panic \<Rightarrow> Panic
      | Return (x, w') \<Rightarrow> returning (\<lambda>xs. x # xs) (call_client_all k rs w'))"

subsection \<open>Clients that write through the reference they are handed\<close>

text \<open>
  The aliasing contract of the underlying client: a call populates the object behind the
  pointer it was given and no other. \<open>stored\<close> reads, from a state, the fields stored
  at an address; \<open>target\<close> is the pointer an interface value carries.
\<close>

fun target :: "'w iface \<Rightarrow> ptr" where
  "target NilIface = Nil"
| "target (Iface T p) = p"

definition writes_only_at :: "('w \<Rightarrow> addr \<Rightarrow> 'f) \<Rightarrow> ptr \<Rightarrow> ('a, 'w) effect \<Rightarrow> bool" where
  "writes_only_at stored p f \<longleftrightarrow>
     (\<forall>w x w' a. f w = Return (x, w') \<longrightarrow> Ptr a \<noteq> p \<longrightarrow> stored w' a = stored w a)"

definition writes_through_argument :: "('w \<Rightarrow> addr \<Rightarrow> 'f) \<Rightarrow> 'w Client \<Rightarrow> bool" where
  "writes_through_argument stored k \<longleftrightarrow>
     (\<forall>ctx key obj opts. writes_only_at stored (target obj) (client_Get k ctx key obj opts)) \<and>
     (\<forall>ctx obj opts. writes_only_at stored (target obj) (client_List k ctx obj opts)) \<and>
     (\<forall>ctx obj opts. writes_only_at stored (target obj) (client_Create k ctx obj opts)) \<and>
     (\<forall>ctx obj opts. writes_only_at stored (target obj) (client_Delete k ctx obj opts)) \<and>
     (\<forall>ctx obj opts. writes_only_at stored (target obj) (client_Update k ctx obj opts)) \<and>
     (\<forall>ctx obj patch opts.
        writes_only_at stored (target obj) (client_Patch k ctx obj patch opts)) \<and>
     (\<forall>ctx obj opts. writes_only_at stored (target obj) (client_DeleteAllOf k ctx obj opts))"

subsection \<open>A recording client\<close>

text \<open>
  A concrete state and a concrete client, on which the theorems are instantiated. The
  state is a heap of field contents by address and the list of calls the client has
  received. The client records the method, the dynamic type and the pointer of the
  object it is handed, and writes into the heap at that pointer and nowhere else; a nil
  object or a nil pointer makes it return an error.
\<close>

datatype seen = Seen string string ptr

record world =
  heap :: "addr \<Rightarrow> string"
  calls :: "seen list"

definition serve :: "string \<Rightarrow> world iface \<Rightarrow> (error, world) effect" where
  "serve m obj w =
     (case obj of
        NilIface \<Rightarrow> Return (Some ''nil object'', w\<lparr>calls := calls w @ [Seen m ''nil'' Nil]\<rparr>)
      | Iface T Nil \<Rightarrow>
          Return (Some ''nil pointer'', w\<lparr>calls := calls w @ [Seen m (type_name T) Nil]\<rparr>)
      | Iface T (Ptr a) \<Rightarrow>
          Return (None, w\<lparr>heap := (heap w)(a := ''set by '' @ m),
                           calls := calls w @ [Seen m (type_name T) (Ptr a)]\<rparr>))"

definition recording_writer :: "nat \<Rightarrow> world StatusWriter" where
  "recording_writer n =
     \<lparr>writer_Update = (\<lambda>ctx obj opts. serve (''Status.Update'' @ replicate n CHR ''+'') obj),
      writer_Patch = (\<lambda>ctx obj patch opts. serve (''Status.Patch'' @ replicate n CHR ''+'') obj)\<rparr>"

text \<open>
  \<^verbatim>\<open>Status()\<close> of the recording client hands out a different writer on every call: the
  writer's number is the number of calls received so far.
\<close>

definition recording_client :: "world Client" where
  "recording_client =
     \<lparr>client_Get = (\<lambda>ctx key obj opts.
         if Name key = ''missing'' then (\<lambda>w. Return (Some ''not found'', w)) else serve ''Get'' obj),
      client_List = (\<lambda>ctx obj opts. serve ''List'' obj),
      client_Create = (\<lambda>ctx obj opts. serve ''Create'' obj),
      client_Delete = (\<lambda>ctx obj opts. serve ''Delete'' obj),
      client_Update = (\<lambda>ctx obj opts. serve ''Update'' obj),
      client_Patch = (\<lambda>ctx obj patch opts. serve ''Patch'' obj),
      client_DeleteAllOf = (\<lambda>ctx obj opts. serve ''DeleteAllOf'' obj),
      client_Status = (\<lambda>w. Return (recording_writer (length (calls w)),
                                     w\<lparr>calls := calls w @ [Seen ''Status'' [] Nil]\<rparr>)),
      client_Scheme = (\<lambda>w. Return (Ptr 7, w)),
      client_RESTMapper = (\<lambda>w. Return (Mapper ''rest'', w))\<rparr>"

text \<open>
  Four dynamic types: a plain typed object with neither accessor; a wrapper that exposes
  the unstructured value embedded right behind its own fields (and panics on a nil
  receiver, as taking the address of a field through a nil pointer does); a wrapper whose
  accessor returns \<^verbatim>\<open>nil\<close>; and a list wrapper built like the second.
\<close>

definition embedded :: "ptr \<Rightarrow> (ptr, 'w) effect" where
  "embedded p w = (case p of Nil \<Rightarrow> Panic | Ptr a \<Rightarrow> Return (Ptr (a + 1), w))"

definition plain_type :: "'w dyn_type" where
  "plain_type =
     \<lparr>type_name = ''*v1.ConfigMap'', GetUnstructured = None, GetUnstructuredList = None\<rparr>"

definition wrapper_type :: "'w dyn_type" where
  "wrapper_type =
     \<lparr>type_name = ''*composite.Unstructured'',
      GetUnstructured = Some embedded, GetUnstructuredList = None\<rparr>"

definition nil_wrapper_type :: "'w dyn_type" where
  "nil_wrapper_type =
     \<lparr>type_name = ''*empty.Wrapper'',
      GetUnstructured = Some (\<lambda>p w. Return (Nil, w)), GetUnstructuredList = None\<rparr>"

definition list_wrapper_type :: "'w dyn_type" where
  "list_wrapper_type =
     \<lparr>type_name = ''*composite.UnstructuredList'',
      GetUnstructured = None, GetUnstructuredList = Some embedded\<rparr>"

definition world0 :: world where
  "world0 = \<lparr>heap = (\<lambda>a. ''caller''), calls = []\<rparr>"

definition foo_bar :: ObjectKey where
  "foo_bar = \<lparr>Namespace = ''bar'', Name = ''foo''\<rparr>"

lemmas fixture_defs =
  serve_def recording_writer_def recording_client_def embedded_def plain_type_def
  wrapper_type_def nil_wrapper_type_def list_wrapper_type_def world0_def foo_bar_def
  Unstructured_def UnstructuredList_def Unstructured_type_def UnstructuredList_type_def
  NewClient_def

section \<open>The branch without substitution\<close>

text \<open>
  When the assertion fails, a method of WrapperClient is the wrapped client's method on
  the argument as it came.
\<close>

lemma Get_plain:
  "as_Wrapper obj = None \<Longrightarrow>
   Get c ctx key obj opts w = client_Get (WrapperClient.kube c) ctx key obj opts w"
  by (simp add: Get_def)

lemma List_plain:
  "as_ListWrapper list = None \<Longrightarrow>
   List c ctx list opts w = client_List (WrapperClient.kube c) ctx list opts w"
  by (simp add: List_def)

lemma Create_plain:
  "as_Wrapper obj = None \<Longrightarrow>
   Create c ctx obj opts w = client_Create (WrapperClient.kube c) ctx obj opts w"
  by (simp add: Create_def)

lemma Delete_plain:
  "as_Wrapper obj = None \<Longrightarrow>
   Delete c ctx obj opts w = client_Delete (WrapperClient.kube c) ctx obj opts w"
  by (simp add: Delete_def)

lemma Update_plain:
  "as_Wrapper obj = None \<Longrightarrow>
   Update c ctx obj opts w = client_Update (WrapperClient.kube c) ctx obj opts w"
  by (simp add: Update_def)

lemma Patch_plain:
  "as_Wrapper obj = None \<Longrightarrow>
   Patch c ctx obj patch opts w = client_Patch (WrapperClient.kube c) ctx obj patch opts w"
  by (simp add: Patch_def)

lemma DeleteAllOf_plain:
  "as_Wrapper obj = None \<Longrightarrow>
   DeleteAllOf c ctx obj opts w = client_DeleteAllOf (WrapperClient.kube c) ctx obj opts w"
  by (simp add: DeleteAllOf_def)

section \<open>Forwarding\<close>

text \<open>
  C1. When the dynamic type of the object does not implement Wrapper (for List: when the
  list does not implement ListWrapper), each of Get, List, Create, Delete, Update, Patch
  and DeleteAllOf is the same method of the wrapped client on the same object, the same
  context, key, patch and options, started in the same state: outcome, error and final
  state are those of the wrapped client.
\<close>

theorem plain_object_forwarded_unchanged:
  "(as_Wrapper obj = None \<longrightarrow>
      Get c ctx key obj gopts w = client_Get (WrapperClient.kube c) ctx key obj gopts w \<and>
      Create c ctx obj copts w = client_Create (WrapperClient.kube c) ctx obj copts w \<and>
      Delete c ctx obj dopts w = client_Delete (WrapperClient.kube c) ctx obj dopts w \<and>
      Update c ctx obj uopts w = client_Update (WrapperClient.kube c) ctx obj uopts w \<and>
      Patch c ctx obj patch popts w = client_Patch (WrapperClient.kube c) ctx obj patch popts w \<and>
      DeleteAllOf c ctx obj aopts w =
        client_DeleteAllOf (WrapperClient.kube c) ctx obj aopts w) \<and>
   (as_ListWrapper list = None \<longrightarrow>
      List c ctx list lopts w = client_List (WrapperClient.kube c) ctx list lopts w)"
  by (simp add: Get_plain Create_plain Delete_plain Update_plain Patch_plain
      DeleteAllOf_plain List_plain)

theorem plain_object_forwarded_unchanged_witness:
  "as_Wrapper (Iface plain_type (Ptr 1) :: world iface) = None \<and>
   as_ListWrapper (Iface plain_type (Ptr 3) :: world iface) = None \<and>
   Get (NewClient recording_client) (Context ''ctx'') foo_bar (Iface plain_type (Ptr 1))
       [GetOption ''o''] world0 =
     client_Get recording_client (Context ''ctx'') foo_bar (Iface plain_type (Ptr 1))
       [GetOption ''o''] world0 \<and>
   Get (NewClient recording_client) (Context ''ctx'') foo_bar (Iface plain_type (Ptr 1))
       [GetOption ''o''] world0 =
     Return (None, \<lparr>heap = (\<lambda>a. ''caller'')(1 := ''set by Get''),
                     calls = [Seen ''Get'' ''*v1.ConfigMap'' (Ptr 1)]\<rparr>) \<and>
   List (NewClient recording_client) (Context ''ctx'') (Iface plain_type (Ptr 3)) [] world0 =
     Return (None, \<lparr>heap = (\<lambda>a. ''caller'')(3 := ''set by List''),
                     calls = [Seen ''List'' ''*v1.ConfigMap'' (Ptr 3)]\<rparr>)"
  using plain_object_forwarded_unchanged
    [of "Iface plain_type (Ptr 1) :: world iface" "NewClient recording_client"
        "Context ''ctx''" foo_bar "[GetOption ''o'']" world0 "[]" "[]" "[]"
        "PatchValue [] []" "[]" "[]" "Iface plain_type (Ptr 3)" "[]"]
  by (simp add: fixture_defs)

text \<open>
  C2. When the dynamic type of the object implements Wrapper and its accessor returns
  the pointer \<open>p\<close> (for List: the list implements ListWrapper and the accessor returns
  \<open>pl\<close>), each of the seven methods is the same method of the wrapped client, handed
  \<open>p\<close> as a \<^verbatim>\<open>*unstructured.Unstructured\<close> (for List \<open>pl\<close> as a
  \<^verbatim>\<open>*unstructured.UnstructuredList\<close>) in place of the argument, with the same context,
  key, patch and options, run in the state the accessor left.
\<close>

theorem wrapper_object_forwarded_as_unstructured:
  "(as_Wrapper obj = Some u \<and> u w = Return (p, w') \<longrightarrow>
      Get c ctx key obj gopts w =
        client_Get (WrapperClient.kube c) ctx key (Unstructured p) gopts w' \<and>
      Create c ctx obj copts w =
        client_Create (WrapperClient.kube c) ctx (Unstructured p) copts w' \<and>
      Delete c ctx obj dopts w =
        client_Delete (WrapperClient.kube c) ctx (Unstructured p) dopts w' \<and>
      Update c ctx obj uopts w =
        client_Update (WrapperClient.kube c) ctx (Unstructured p) uopts w' \<and>
      Patch c ctx obj patch popts w =
        client_Patch (WrapperClient.kube c) ctx (Unstructured p) patch popts w' \<and>
      DeleteAllOf c ctx obj aopts w =
        client_DeleteAllOf (WrapperClient.kube c) ctx (Unstructured p) aopts w') \<and>
   (as_ListWrapper list = Some ul \<and> ul w = Return (pl, wl) \<longrightarrow>
      List c ctx list lopts w =
        client_List (WrapperClient.kube c) ctx (UnstructuredList pl) lopts wl) \<and>
   target (Unstructured p :: 'w iface) = p \<and> target (UnstructuredList pl :: 'w iface) = pl"
  by (simp add: Get_def Create_def Delete_def Update_def Patch_def DeleteAllOf_def List_def
      Unstructured_def UnstructuredList_def)

theorem wrapper_object_forwarded_as_unstructured_witness:
  "as_Wrapper (Iface wrapper_type (Ptr 10) :: world iface) = Some (embedded (Ptr 10)) \<and>
   embedded (Ptr 10) world0 = Return (Ptr 11, world0) \<and>
   as_ListWrapper (Iface list_wrapper_type (Ptr 20) :: world iface) = Some (embedded (Ptr 20)) \<and>
   embedded (Ptr 20) world0 = Return (Ptr 21, world0) \<and>
   Update (NewClient recording_client) (Context ''ctx'') (Iface wrapper_type (Ptr 10))
       [UpdateOption ''o''] world0 =
     client_Update recording_client (Context ''ctx'') (Unstructured (Ptr 11))
       [UpdateOption ''o''] world0 \<and>
   Update (NewClient recording_client) (Context ''ctx'') (Iface wrapper_type (Ptr 10))
       [UpdateOption ''o''] world0 =
     Return (None, \<lparr>heap = (\<lambda>a. ''caller'')(11 := ''set by Update''),
                     calls = [Seen ''Update'' ''*unstructured.Unstructured'' (Ptr 11)]\<rparr>) \<and>
   List (NewClient recording_client) (Context ''ctx'') (Iface list_wrapper_type (Ptr 20))
       [] world0 =
     Return (None, \<lparr>heap = (\<lambda>a. ''caller'')(21 := ''set by List''),
                     calls = [Seen ''List'' ''*unstructured.UnstructuredList'' (Ptr 21)]\<rparr>)"
  using wrapper_object_forwarded_as_unstructured
    [of "Iface wrapper_type (Ptr 10) :: world iface" "embedded (Ptr 10)" world0 "Ptr 11" world0
        "NewClient recording_client" "Context ''ctx''" foo_bar "[]" "[]" "[]"
        "[UpdateOption ''o'']" "PatchValue [] []" "[]" "[]"
        "Iface list_wrapper_type (Ptr 20)" "embedded (Ptr 20)" "Ptr 21" world0 "[]"]
  by (simp add: fixture_defs)

section \<open>What a call leaves behind\<close>

lemma writes_only_atD:
  "writes_only_at stored p f \<Longrightarrow> f w1 = Return (e, w2) \<Longrightarrow> Ptr a \<noteq> p \<Longrightarrow>
   stored w2 a = stored w1 a"
  unfolding writes_only_at_def by blast

lemma target_Unstructured [simp]:
  "target (Unstructured p) = p" "target (UnstructuredList p) = p"
  by (simp_all add: Unstructured_def UnstructuredList_def)

lemma recording_client_writes_through_argument:
  "writes_through_argument heap recording_client"
  unfolding writes_through_argument_def writes_only_at_def recording_client_def serve_def
  by (auto split: iface.splits ptr.splits if_splits)

text \<open>
  C3. On the substitution path the methods write nothing themselves: with a wrapped
  client that populates only the object behind the pointer it is handed, and an accessor
  that returned the pointer \<open>p\<close> and left the fields at \<open>a\<close> alone, the fields
  stored at any address \<open>a\<close> other than \<open>p\<close> (the caller's original object among
  them) are after the call what they were before it. Only what \<open>p\<close> points to can have
  been populated.
\<close>

theorem original_fields_untouched:
  assumes k: "writes_through_argument stored (WrapperClient.kube c)"
    and ne: "Ptr a \<noteq> p" and u: "u w = Return (p, w1)" and acc: "stored w1 a = stored w a"
  shows
  "(as_Wrapper obj = Some u \<longrightarrow>
      (Get c ctx key obj gopts w = Return (e, w2) \<longrightarrow> stored w2 a = stored w a) \<and>
      (Create c ctx obj copts w = Return (e, w2) \<longrightarrow> stored w2 a = stored w a) \<and>
      (Delete c ctx obj dopts w = Return (e, w2) \<longrightarrow> stored w2 a = stored w a) \<and>
      (Update c ctx obj uopts w = Return (e, w2) \<longrightarrow> stored w2 a = stored w a) \<and>
      (Patch c ctx obj patch popts w = Return (e, w2) \<longrightarrow> stored w2 a = stored w a) \<and>
      (DeleteAllOf c ctx obj aopts w = Return (e, w2) \<longrightarrow> stored w2 a = stored w a)) \<and>
   (as_ListWrapper obj = Some u \<longrightarrow>
      (List c ctx obj lopts w = Return (e, w2) \<longrightarrow> stored w2 a = stored w a))"
proof -
  let ?k = "WrapperClient.kube c"
  have g: "writes_only_at stored p (client_Get ?k ctx key (Unstructured p) gopts)"
    using k unfolding writes_through_argument_def
    by (metis target_Unstructured(1))
  have l: "writes_only_at stored p (client_List ?k ctx (UnstructuredList p) lopts)"
    using k unfolding writes_through_argument_def
    by (metis target_Unstructured(2))
  have cr: "writes_only_at stored p (client_Create ?k ctx (Unstructured p) copts)"
    using k unfolding writes_through_argument_def
    by (metis target_Unstructured(1))
  have d: "writes_only_at stored p (client_Delete ?k ctx (Unstructured p) dopts)"
    using k unfolding writes_through_argument_def
    by (metis target_Unstructured(1))
  have up: "writes_only_at stored p (client_Update ?k ctx (Unstructured p) uopts)"
    using k unfolding writes_through_argument_def
    by (metis target_Unstructured(1))
  have pa: "writes_only_at stored p (client_Patch ?k ctx (Unstructured p) patch popts)"
    using k unfolding writes_through_argument_def
    by (metis target_Unstructured(1))
  have da: "writes_only_at stored p (client_DeleteAllOf ?k ctx (Unstructured p) aopts)"
    using k unfolding writes_through_argument_def
    by (metis target_Unstructured(1))
  have step: "\<And>f. writes_only_at stored p f \<Longrightarrow> f w1 = Return (e, w2) \<Longrightarrow> stored w2 a = stored w a"
    using writes_only_atD [OF _ _ ne] acc by fastforce
  show ?thesis
    using step [OF g] step [OF l] step [OF cr] step [OF d] step [OF up] step [OF pa] step [OF da]
    by (simp add: Get_def Create_def Delete_def Update_def Patch_def DeleteAllOf_def
        List_def u)
qed

theorem original_fields_untouched_witness:
  "writes_through_argument heap recording_client \<and>
   as_Wrapper (Iface wrapper_type (Ptr 10) :: world iface) = Some (embedded (Ptr 10)) \<and>
   embedded (Ptr 10) world0 = Return (Ptr 11, world0) \<and>
   Update (NewClient recording_client) (Context ''ctx'') (Iface wrapper_type (Ptr 10)) [] world0 =
     Return (None, \<lparr>heap = (\<lambda>a. ''caller'')(11 := ''set by Update''),
                     calls = [Seen ''Update'' ''*unstructured.Unstructured'' (Ptr 11)]\<rparr>) \<and>
   heap \<lparr>heap = (\<lambda>a. ''caller'')(11 := ''set by Update''),
         calls = [Seen ''Update'' ''*unstructured.Unstructured'' (Ptr 11)]\<rparr> 10 = heap world0 10 \<and>
   heap world0 10 = ''caller''"
  using original_fields_untouched
    [of heap "NewClient recording_client" 10 "Ptr 11" "embedded (Ptr 10)" world0 world0
        "Iface wrapper_type (Ptr 10)" "Context ''ctx''" foo_bar "[]" None
        "\<lparr>heap = (\<lambda>a. ''caller'')(11 := ''set by Update''),
           calls = [Seen ''Update'' ''*unstructured.Unstructured'' (Ptr 11)]\<rparr>"
        "[]" "[]" "[]" "PatchValue [] []" "[]" "[]" "[]"]
    recording_client_writes_through_argument
  by (simp add: fixture_defs Update_def)

section \<open>Failures\<close>

text \<open>
  Every outcome of a method is the outcome of one call of the same method of the wrapped
  client (of the wrapped status writer), or the panic of the caller's accessor.
\<close>

lemma Get_outcome:
  "(\<exists>obj' w'. Get c ctx key obj opts w = client_Get (WrapperClient.kube c) ctx key obj' opts w') \<or>
   (\<exists>u. as_Wrapper obj = Some u \<and> u w = Panic \<and> Get c ctx key obj opts w = Panic)"
proof (cases "as_Wrapper obj")
  case None
  then show ?thesis by (auto simp: Get_def)
next
  case (Some u)
  then show ?thesis by (cases "u w") (auto simp: Get_def)
qed

lemma List_outcome:
  "(\<exists>obj' w'. List c ctx obj opts w = client_List (WrapperClient.kube c) ctx obj' opts w') \<or>
   (\<exists>u. as_ListWrapper obj = Some u \<and> u w = Panic \<and> List c ctx obj opts w = Panic)"
proof (cases "as_ListWrapper obj")
  case None
  then show ?thesis by (auto simp: List_def)
next
  case (Some u)
  then show ?thesis by (cases "u w") (auto simp: List_def)
qed

lemma Create_outcome:
  "(\<exists>obj' w'. Create c ctx obj opts w = client_Create (WrapperClient.kube c) ctx obj' opts w') \<or>
   (\<exists>u. as_Wrapper obj = Some u \<and> u w = Panic \<and> Create c ctx obj opts w = Panic)"
proof (cases "as_Wrapper obj")
  case None
  then show ?thesis by (auto simp: Create_def)
next
  case (Some u)
  then show ?thesis by (cases "u w") (auto simp: Create_def)
qed

lemma Delete_outcome:
  "(\<exists>obj' w'. Delete c ctx obj opts w = client_Delete (WrapperClient.kube c) ctx obj' opts w') \<or>
   (\<exists>u. as_Wrapper obj = Some u \<and> u w = Panic \<and> Delete c ctx obj opts w = Panic)"
proof (cases "as_Wrapper obj")
  case None
  then show ?thesis by (auto simp: Delete_def)
next
  case (Some u)
  then show ?thesis by (cases "u w") (auto simp: Delete_def)
qed

lemma Update_outcome:
  "(\<exists>obj' w'. Update c ctx obj opts w = client_Update (WrapperClient.kube c) ctx obj' opts w') \<or>
   (\<exists>u. as_Wrapper obj = Some u \<and> u w = Panic \<and> Update c ctx obj opts w = Panic)"
proof (cases "as_Wrapper obj")
  case None
  then show ?thesis by (auto simp: Update_def)
next
  case (Some u)
  then show ?thesis by (cases "u w") (auto simp: Update_def)
qed

lemma Patch_outcome:
  "(\<exists>obj' w'. Patch c ctx obj patch opts w =
      client_Patch (WrapperClient.kube c) ctx obj' patch opts w') \<or>
   (\<exists>u. as_Wrapper obj = Some u \<and> u w = Panic \<and> Patch c ctx obj patch opts w = Panic)"
proof (cases "as_Wrapper obj")
  case None
  then show ?thesis by (auto simp: Patch_def)
next
  case (Some u)
  then show ?thesis by (cases "u w") (auto simp: Patch_def)
qed

lemma DeleteAllOf_outcome:
  "(\<exists>obj' w'. DeleteAllOf c ctx obj opts w =
      client_DeleteAllOf (WrapperClient.kube c) ctx obj' opts w') \<or>
   (\<exists>u. as_Wrapper obj = Some u \<and> u w = Panic \<and> DeleteAllOf c ctx obj opts w = Panic)"
proof (cases "as_Wrapper obj")
  case None
  then show ?thesis by (auto simp: DeleteAllOf_def)
next
  case (Some u)
  then show ?thesis by (cases "u w") (auto simp: DeleteAllOf_def)
qed

lemma status_Update_outcome:
  "(\<exists>obj' w'. wrapperStatusClient_Update s ctx obj opts w =
      writer_Update (wrapperStatusClient.kube s) ctx obj' opts w') \<or>
   (\<exists>u. as_Wrapper obj = Some u \<and> u w = Panic \<and>
      wrapperStatusClient_Update s ctx obj opts w = Panic)"
proof (cases "as_Wrapper obj")
  case None
  then show ?thesis by (auto simp: wrapperStatusClient_Update_def)
next
  case (Some u)
  then show ?thesis by (cases "u w") (auto simp: wrapperStatusClient_Update_def)
qed

lemma status_Patch_outcome:
  "(\<exists>obj' w'. wrapperStatusClient_Patch s ctx obj patch opts w =
      writer_Patch (wrapperStatusClient.kube s) ctx obj' patch opts w') \<or>
   (\<exists>u. as_Wrapper obj = Some u \<and> u w = Panic \<and>
      wrapperStatusClient_Patch s ctx obj patch opts w = Panic)"
proof (cases "as_Wrapper obj")
  case None
  then show ?thesis by (auto simp: wrapperStatusClient_Patch_def)
next
  case (Some u)
  then show ?thesis by (cases "u w") (auto simp: wrapperStatusClient_Patch_def)
qed

text \<open>
  C4. For every method of WrapperClient and of the status client that returns an error,
  the outcome handed to the caller (the error, nil or not, and the state) is the very
  outcome of the corresponding call of the wrapped client; nothing is wrapped or
  replaced. The capability check is a total function that answers no for the nil
  interface instead of failing, so a method ends abnormally only when the wrapped call
  does or when the accessor supplied by the caller's type panics.
\<close>

theorem only_the_underlying_call_fails:
  "((\<exists>obj' w'. Get c ctx key obj gopts w =
        client_Get (WrapperClient.kube c) ctx key obj' gopts w') \<or>
    (\<exists>u. as_Wrapper obj = Some u \<and> u w = Panic \<and> Get c ctx key obj gopts w = Panic)) \<and>
   ((\<exists>obj' w'. List c ctx obj lopts w = client_List (WrapperClient.kube c) ctx obj' lopts w') \<or>
    (\<exists>u. as_ListWrapper obj = Some u \<and> u w = Panic \<and> List c ctx obj lopts w = Panic)) \<and>
   ((\<exists>obj' w'. Create c ctx obj copts w =
        client_Create (WrapperClient.kube c) ctx obj' copts w') \<or>
    (\<exists>u. as_Wrapper obj = Some u \<and> u w = Panic \<and> Create c ctx obj copts w = Panic)) \<and>
   ((\<exists>obj' w'. Delete c ctx obj dopts w =
        client_Delete (WrapperClient.kube c) ctx obj' dopts w') \<or>
    (\<exists>u. as_Wrapper obj = Some u \<and> u w = Panic \<and> Delete c ctx obj dopts w = Panic)) \<and>
   ((\<exists>obj' w'. Update c ctx obj uopts w =
        client_Update (WrapperClient.kube c) ctx obj' uopts w') \<or>
    (\<exists>u. as_Wrapper obj = Some u \<and> u w = Panic \<and> Update c ctx obj uopts w = Panic)) \<and>
   ((\<exists>obj' w'. Patch c ctx obj patch popts w =
        client_Patch (WrapperClient.kube c) ctx obj' patch popts w') \<or>
    (\<exists>u. as_Wrapper obj = Some u \<and> u w = Panic \<and> Patch c ctx obj patch popts w = Panic)) \<and>
   ((\<exists>obj' w'. DeleteAllOf c ctx obj aopts w =
        client_DeleteAllOf (WrapperClient.kube c) ctx obj' aopts w') \<or>
    (\<exists>u. as_Wrapper obj = Some u \<and> u w = Panic \<and> DeleteAllOf c ctx obj aopts w = Panic)) \<and>
   ((\<exists>obj' w'. wrapperStatusClient_Update s ctx obj uopts w =
        writer_Update (wrapperStatusClient.kube s) ctx obj' uopts w') \<or>
    (\<exists>u. as_Wrapper obj = Some u \<and> u w = Panic \<and>
        wrapperStatusClient_Update s ctx obj uopts w = Panic)) \<and>
   ((\<exists>obj' w'. wrapperStatusClient_Patch s ctx obj patch popts w =
        writer_Patch (wrapperStatusClient.kube s) ctx obj' patch popts w') \<or>
    (\<exists>u. as_Wrapper obj = Some u \<and> u w = Panic \<and>
        wrapperStatusClient_Patch s ctx obj patch popts w = Panic)) \<and>
   as_Wrapper (NilIface :: 'w iface) = None \<and> as_ListWrapper (NilIface :: 'w iface) = None"
  using Get_outcome [of c ctx key obj gopts w] List_outcome [of c ctx obj lopts w]
    Create_outcome [of c ctx obj copts w] Delete_outcome [of c ctx obj dopts w]
    Update_outcome [of c ctx obj uopts w] Patch_outcome [of c ctx obj patch popts w]
    DeleteAllOf_outcome [of c ctx obj aopts w] status_Update_outcome [of s ctx obj uopts w]
    status_Patch_outcome [of s ctx obj patch popts w]
  by simp

theorem only_the_underlying_call_fails_witness:
  "Get (NewClient recording_client) (Context ''ctx'') \<lparr>Namespace = ''bar'', Name = ''missing''\<rparr>
       (Iface wrapper_type (Ptr 10)) [] world0 = Return (Some ''not found'', world0) \<and>
   client_Get recording_client (Context ''ctx'') \<lparr>Namespace = ''bar'', Name = ''missing''\<rparr>
       (Unstructured (Ptr 11)) [] world0 = Return (Some ''not found'', world0) \<and>
   Get (NewClient recording_client) (Context ''ctx'') foo_bar
       (Iface wrapper_type Nil) [] world0 = Panic \<and>
   embedded Nil world0 = Panic"
  using only_the_underlying_call_fails
    [of "NewClient recording_client" "Context ''ctx''"
        "\<lparr>Namespace = ''bar'', Name = ''missing''\<rparr>" "Iface wrapper_type (Ptr 10)" "[]" world0]
  by (simp add: fixture_defs Get_def)

section \<open>The status client and the accessors\<close>

text \<open>
  C5. Update and Patch of the status client follow the rule of WrapperClient: an object
  whose type does not implement Wrapper goes to the wrapped status writer as it is; an
  object whose type implements it is replaced by the pointer its accessor returns; the
  context, the patch and the options are handed on unchanged. The writer inside the
  client that Status returns is the one the wrapped client's Status() returned.
\<close>

theorem status_client_substitutes_alike:
  "(as_Wrapper obj = None \<longrightarrow>
      wrapperStatusClient_Update s ctx obj uopts w =
        writer_Update (wrapperStatusClient.kube s) ctx obj uopts w \<and>
      wrapperStatusClient_Patch s ctx obj patch popts w =
        writer_Patch (wrapperStatusClient.kube s) ctx obj patch popts w) \<and>
   (as_Wrapper obj = Some u \<and> u w = Return (p, w') \<longrightarrow>
      wrapperStatusClient_Update s ctx obj uopts w =
        writer_Update (wrapperStatusClient.kube s) ctx (Unstructured p) uopts w' \<and>
      wrapperStatusClient_Patch s ctx obj patch popts w =
        writer_Patch (wrapperStatusClient.kube s) ctx (Unstructured p) patch popts w') \<and>
   (Status c v = Return (s, v') \<longrightarrow>
      client_Status (WrapperClient.kube c) v = Return (wrapperStatusClient.kube s, v'))"
  by (auto simp: wrapperStatusClient_Update_def wrapperStatusClient_Patch_def Status_def
      split: outcome.splits)

theorem status_client_substitutes_alike_witness:
  "Status (NewClient recording_client) world0 =
     Return (\<lparr>wrapperStatusClient.kube = recording_writer 0\<rparr>,
             \<lparr>heap = (\<lambda>a. ''caller''), calls = [Seen ''Status'' [] Nil]\<rparr>) \<and>
   as_Wrapper (Iface plain_type (Ptr 30) :: world iface) = None \<and>
   wrapperStatusClient_Update \<lparr>wrapperStatusClient.kube = recording_writer 0\<rparr>
       (Context ''ctx'') (Iface plain_type (Ptr 30)) [] world0 =
     Return (None, \<lparr>heap = (\<lambda>a. ''caller'')(30 := ''set by Status.Update''),
                     calls = [Seen ''Status.Update'' ''*v1.ConfigMap'' (Ptr 30)]\<rparr>) \<and>
   as_Wrapper (Iface wrapper_type (Ptr 10) :: world iface) = Some (embedded (Ptr 10)) \<and>
   embedded (Ptr 10) world0 = Return (Ptr 11, world0) \<and>
   wrapperStatusClient_Patch \<lparr>wrapperStatusClient.kube = recording_writer 0\<rparr>
       (Context ''ctx'') (Iface wrapper_type (Ptr 10)) (PatchValue ''merge'' ''{}'') [] world0 =
     Return (None, \<lparr>heap = (\<lambda>a. ''caller'')(11 := ''set by Status.Patch''),
                     calls = [Seen ''Status.Patch'' ''*unstructured.Unstructured'' (Ptr 11)]\<rparr>)"
  using status_client_substitutes_alike
    [of "Iface plain_type (Ptr 30) :: world iface"
        "\<lparr>wrapperStatusClient.kube = recording_writer 0\<rparr>" "Context ''ctx''" "[]" world0]
    status_client_substitutes_alike
    [of "Iface wrapper_type (Ptr 10) :: world iface"
        "\<lparr>wrapperStatusClient.kube = recording_writer 0\<rparr>" "Context ''ctx''" "[]" world0
        "PatchValue ''merge'' ''{}''" "[]" "embedded (Ptr 10)" "Ptr 11" world0
        "NewClient recording_client" world0
        "\<lparr>heap = (\<lambda>a. ''caller''), calls = [Seen ''Status'' [] Nil]\<rparr>"]
  by (simp add: fixture_defs Status_def)

text \<open>
  C6. Status keeps nothing between calls. Each call that returns has called Status() of
  the wrapped client in the state of that call and returns a wrapperStatusClient built
  around the writer that call produced; when the wrapped Status() hands out another
  writer the second time, so does Status. A panic of the wrapped Status() is the outcome
  of Status.
\<close>

theorem status_rederived_on_each_call:
  "(Status c w = Return (s1, w1) \<and> Status c v = Return (s2, v2) \<longrightarrow>
      client_Status (WrapperClient.kube c) w = Return (wrapperStatusClient.kube s1, w1) \<and>
      client_Status (WrapperClient.kube c) v = Return (wrapperStatusClient.kube s2, v2)) \<and>
   (client_Status (WrapperClient.kube c) w = Return (sw, w1) \<longrightarrow>
      Status c w = Return (\<lparr>wrapperStatusClient.kube = sw\<rparr>, w1)) \<and>
   (client_Status (WrapperClient.kube c) w = Panic \<longrightarrow> Status c w = Panic)"
  by (auto simp: Status_def split: outcome.splits)

theorem status_rederived_on_each_call_witness:
  "Status (NewClient recording_client) world0 =
     Return (\<lparr>wrapperStatusClient.kube = recording_writer 0\<rparr>,
             \<lparr>heap = (\<lambda>a. ''caller''), calls = [Seen ''Status'' [] Nil]\<rparr>) \<and>
   Status (NewClient recording_client)
       \<lparr>heap = (\<lambda>a. ''caller''), calls = [Seen ''Status'' [] Nil]\<rparr> =
     Return (\<lparr>wrapperStatusClient.kube = recording_writer 1\<rparr>,
             \<lparr>heap = (\<lambda>a. ''caller''),
              calls = [Seen ''Status'' [] Nil, Seen ''Status'' [] Nil]\<rparr>) \<and>
   client_Status recording_client world0 =
     Return (recording_writer 0,
             \<lparr>heap = (\<lambda>a. ''caller''), calls = [Seen ''Status'' [] Nil]\<rparr>) \<and>
   client_Status recording_client
       \<lparr>heap = (\<lambda>a. ''caller''), calls = [Seen ''Status'' [] Nil]\<rparr> =
     Return (recording_writer 1,
             \<lparr>heap = (\<lambda>a. ''caller''),
              calls = [Seen ''Status'' [] Nil, Seen ''Status'' [] Nil]\<rparr>) \<and>
   writer_Update (recording_writer 0) (Context ''ctx'') NilIface [] world0 \<noteq>
     writer_Update (recording_writer 1) (Context ''ctx'') NilIface [] world0"
  using status_rederived_on_each_call
    [of "NewClient recording_client" world0 "\<lparr>wrapperStatusClient.kube = recording_writer 0\<rparr>"
        "\<lparr>heap = (\<lambda>a. ''caller''), calls = [Seen ''Status'' [] Nil]\<rparr>"
        "\<lparr>heap = (\<lambda>a. ''caller''), calls = [Seen ''Status'' [] Nil]\<rparr>"
        "\<lparr>wrapperStatusClient.kube = recording_writer 1\<rparr>"
        "\<lparr>heap = (\<lambda>a. ''caller''),
          calls = [Seen ''Status'' [] Nil, Seen ''Status'' [] Nil]\<rparr>"]
  by (simp add: Status_def recording_client_def NewClient_def world0_def recording_writer_def
      serve_def)

text \<open>
  C7. Scheme and RESTMapper are the wrapped client's Scheme() and RESTMapper(): same
  value, same state, for every client and every state.
\<close>

theorem scheme_and_restmapper_forwarded:
  "Scheme c w = client_Scheme (WrapperClient.kube c) w \<and>
   RESTMapper c w = client_RESTMapper (WrapperClient.kube c) w \<and>
   Scheme (NewClient k) = client_Scheme k \<and>
   RESTMapper (NewClient k) = client_RESTMapper k"
  by (auto simp: Scheme_def RESTMapper_def NewClient_def)

theorem scheme_and_restmapper_forwarded_witness:
  "Scheme (NewClient recording_client) world0 = Return (Ptr 7, world0) \<and>
   RESTMapper (NewClient recording_client) world0 = Return (Mapper ''rest'', world0)"
  using scheme_and_restmapper_forwarded [of "NewClient recording_client" world0 recording_client]
  by (simp add: recording_client_def NewClient_def)

section \<open>One client for the whole lifetime\<close>

text \<open>
  No method changes the struct it is called on, and each method is the substitution of
  the argument followed by the same call on the client held in \<open>kube\<close>.
\<close>

lemma returning_Return:
  "returning f r = Return (y, w') \<longleftrightarrow> (\<exists>x. r = Return (x, w') \<and> y = f x)"
  by (auto simp: returning_def split: outcome.splits)

lemma invoke_receiver:
  "invoke c r w = Return ((x, c'), w') \<Longrightarrow> c' = c"
  by (cases r) (auto simp: returning_Return)

lemma run_receiver:
  "run c rs w = Return ((xs, c'), w') \<Longrightarrow> c' = c"
proof (induction rs arbitrary: w xs w')
  case Nil
  then show ?case by simp
next
  case (Cons r rs)
  from Cons.prems obtain x c1 w1 ys where
    i: "invoke c r w = Return ((x, c1), w1)" and
    t: "run c1 rs w1 = Return ((ys, c'), w')"
    by (auto simp: returning_Return split: outcome.splits)
  from i have "c1 = c" by (rule invoke_receiver)
  with t Cons.IH show ?case by blast
qed

lemma returning_returning:
  "returning f (returning g r) = returning (\<lambda>x. f (g x)) r"
  by (auto simp: returning_def split: outcome.splits)

lemma exposed_then:
  "after (exposed obj) g w =
     (case as_Wrapper obj of
        Some u \<Rightarrow> (case u w of Panic \<Rightarrow> Panic | Return (p, w') \<Rightarrow> g (Unstructured p) w')
      | None \<Rightarrow> g obj w)"
  by (auto simp: after_def exposed_def returning_def split: option.splits outcome.splits)

lemma exposed_list_then:
  "after (exposed_list obj) g w =
     (case as_ListWrapper obj of
        Some u \<Rightarrow> (case u w of Panic \<Rightarrow> Panic | Return (p, w') \<Rightarrow> g (UnstructuredList p) w')
      | None \<Rightarrow> g obj w)"
  by (auto simp: after_def exposed_list_def returning_def split: option.splits outcome.splits)

lemma invoke_call_client:
  "returning fst (invoke c r w) = call_client (WrapperClient.kube c) r w"
proof (cases r)
  case (GetRequest ctx key obj opts)
  then show ?thesis
    by (simp add: returning_returning exposed_then Get_def)
      (simp add: returning_def split: option.splits outcome.splits)
next
  case (ListRequest ctx obj opts)
  then show ?thesis
    by (simp add: returning_returning exposed_list_then List_def)
      (simp add: returning_def split: option.splits outcome.splits)
next
  case (CreateRequest ctx obj opts)
  then show ?thesis
    by (simp add: returning_returning exposed_then Create_def)
      (simp add: returning_def split: option.splits outcome.splits)
next
  case (DeleteRequest ctx obj opts)
  then show ?thesis
    by (simp add: returning_returning exposed_then Delete_def)
      (simp add: returning_def split: option.splits outcome.splits)
next
  case (UpdateRequest ctx obj opts)
  then show ?thesis
    by (simp add: returning_returning exposed_then Update_def)
      (simp add: returning_def split: option.splits outcome.splits)
next
  case (PatchRequest ctx obj patch opts)
  then show ?thesis
    by (simp add: returning_returning exposed_then Patch_def)
      (simp add: returning_def split: option.splits outcome.splits)
next
  case (DeleteAllOfRequest ctx obj opts)
  then show ?thesis
    by (simp add: returning_returning exposed_then DeleteAllOf_def)
      (simp add: returning_def split: option.splits outcome.splits)
next
  case StatusRequest
  then show ?thesis
    by (simp add: returning_returning Status_def)
      (simp add: returning_def split: outcome.splits)
next
  case SchemeRequest
  then show ?thesis by (simp add: returning_returning Scheme_def)
next
  case RESTMapperRequest
  then show ?thesis by (simp add: returning_returning RESTMapper_def)
qed

lemma run_call_client_all:
  "returning fst (run c rs w) = call_client_all (WrapperClient.kube c) rs w"
proof (induction rs arbitrary: w)
  case Nil
  then show ?case by (simp add: returning_def)
next
  case (Cons r rs)
  show ?case
  proof (cases "invoke c r w")
    case Panic
    with invoke_call_client [of c r w] show ?thesis by (simp add: returning_def)
  next
    case (Return y)
    obtain x c1 w1 where y: "y = ((x, c1), w1)" by (metis prod.exhaust)
    with Return have c1: "c1 = c" by (auto dest: invoke_receiver)
    from Return y invoke_call_client [of c r w]
    have cc: "call_client (WrapperClient.kube c) r w = Return (x, w1)"
      by (simp add: returning_def)
    have "returning fst (returning (\<lambda>(xs, c''). (x # xs, c'')) (run c rs w1)) =
          returning (\<lambda>xs. x # xs) (returning fst (run c rs w1))"
      by (auto simp: returning_def split: outcome.splits)
    with Return y c1 cc Cons.IH [of w1] show ?thesis by simp
  qed
qed

text \<open>
  C8. The client a WrapperClient holds is the one NewClient was given, and stays so:
  after any sequence of calls of its ten methods the struct is still the one NewClient
  built, and the replies and the final state of the sequence are those of making, in the
  same order, the corresponding calls directly on that one client, each on the argument
  or on the reference it exposes. The struct has no field besides \<open>kube\<close>: it is
  determined by the client it holds.
\<close>

theorem underlying_client_fixed_at_construction:
  "(run (NewClient k) rs w = Return ((xs, c'), w') \<longrightarrow>
      c' = NewClient k \<and> WrapperClient.kube c' = k) \<and>
   returning fst (run (NewClient k) rs w) = call_client_all k rs w \<and>
   WrapperClient.kube (NewClient k) = k \<and>
   NewClient (WrapperClient.kube c) = c"
  using run_receiver [of "NewClient k" rs w xs c' w'] run_call_client_all [of "NewClient k" rs w]
  by (auto simp: NewClient_def)

theorem underlying_client_fixed_at_construction_witness:
  "run (NewClient recording_client)
       [GetRequest (Context ''ctx'') foo_bar (Iface plain_type (Ptr 30)) [],
        UpdateRequest (Context ''ctx'') (Iface wrapper_type (Ptr 10)) [],
        SchemeRequest] world0 =
     Return (([ErrorReply None, ErrorReply None, SchemeReply (Ptr 7)],
              NewClient recording_client),
             \<lparr>heap = (\<lambda>a. ''caller'')(30 := ''set by Get'', 11 := ''set by Update''),
              calls = [Seen ''Get'' ''*v1.ConfigMap'' (Ptr 30),
                       Seen ''Update'' ''*unstructured.Unstructured'' (Ptr 11)]\<rparr>) \<and>
   WrapperClient.kube (NewClient recording_client) = recording_client \<and>
   call_client_all recording_client
       [GetRequest (Context ''ctx'') foo_bar (Iface plain_type (Ptr 30)) [],
        UpdateRequest (Context ''ctx'') (Iface wrapper_type (Ptr 10)) [],
        SchemeRequest] world0 =
     Return ([ErrorReply None, ErrorReply None, SchemeReply (Ptr 7)],
             \<lparr>heap = (\<lambda>a. ''caller'')(30 := ''set by Get'', 11 := ''set by Update''),
              calls = [Seen ''Get'' ''*v1.ConfigMap'' (Ptr 30),
                       Seen ''Update'' ''*unstructured.Unstructured'' (Ptr 11)]\<rparr>)"
  using underlying_client_fixed_at_construction
    [of recording_client
        "[GetRequest (Context ''ctx'') foo_bar (Iface plain_type (Ptr 30)) [],
          UpdateRequest (Context ''ctx'') (Iface wrapper_type (Ptr 10)) [],
          SchemeRequest]" world0
        "[ErrorReply None, ErrorReply None, SchemeReply (Ptr 7)]"
        "NewClient recording_client"
        "\<lparr>heap = (\<lambda>a. ''caller'')(30 := ''set by Get'', 11 := ''set by Update''),
          calls = [Seen ''Get'' ''*v1.ConfigMap'' (Ptr 30),
                   Seen ''Update'' ''*unstructured.Unstructured'' (Ptr 11)]\<rparr>"
        "NewClient recording_client"]
  by (simp add: fixture_defs Get_def Update_def Scheme_def returning_def after_def
      exposed_def)

section \<open>Which capability is asked for, and nil\<close>

text \<open>
  C9. List asks its argument for ListWrapper only: a list whose type implements Wrapper
  but not ListWrapper is forwarded as it is, and when the type implements ListWrapper
  the outcome does not depend on whether, or how, it implements Wrapper. Get, Create,
  Delete, Update, Patch and DeleteAllOf ask for Wrapper only: an object whose type
  implements ListWrapper but not Wrapper is forwarded as it is, and when the type
  implements Wrapper the outcome does not depend on its ListWrapper accessor.
\<close>

theorem capabilities_checked_per_argument_kind:
  "(as_ListWrapper list = None \<and> as_Wrapper list = Some u \<longrightarrow>
      List c ctx list lopts w = client_List (WrapperClient.kube c) ctx list lopts w) \<and>
   (as_Wrapper obj = None \<and> as_ListWrapper obj = Some ul \<longrightarrow>
      Get c ctx key obj gopts w = client_Get (WrapperClient.kube c) ctx key obj gopts w \<and>
      Create c ctx obj copts w = client_Create (WrapperClient.kube c) ctx obj copts w \<and>
      Delete c ctx obj dopts w = client_Delete (WrapperClient.kube c) ctx obj dopts w \<and>
      Update c ctx obj uopts w = client_Update (WrapperClient.kube c) ctx obj uopts w \<and>
      Patch c ctx obj patch popts w = client_Patch (WrapperClient.kube c) ctx obj patch popts w \<and>
      DeleteAllOf c ctx obj aopts w =
        client_DeleteAllOf (WrapperClient.kube c) ctx obj aopts w) \<and>
   (GetUnstructuredList T = Some m \<longrightarrow>
      List c ctx (Iface (T\<lparr>GetUnstructured := g\<rparr>) q) lopts w = List c ctx (Iface T q) lopts w) \<and>
   (GetUnstructured T = Some m \<longrightarrow>
      Get c ctx key (Iface (T\<lparr>GetUnstructuredList := g\<rparr>) q) gopts w =
        Get c ctx key (Iface T q) gopts w \<and>
      Create c ctx (Iface (T\<lparr>GetUnstructuredList := g\<rparr>) q) copts w =
        Create c ctx (Iface T q) copts w \<and>
      Delete c ctx (Iface (T\<lparr>GetUnstructuredList := g\<rparr>) q) dopts w =
        Delete c ctx (Iface T q) dopts w \<and>
      Update c ctx (Iface (T\<lparr>GetUnstructuredList := g\<rparr>) q) uopts w =
        Update c ctx (Iface T q) uopts w \<and>
      Patch c ctx (Iface (T\<lparr>GetUnstructuredList := g\<rparr>) q) patch popts w =
        Patch c ctx (Iface T q) patch popts w \<and>
      DeleteAllOf c ctx (Iface (T\<lparr>GetUnstructuredList := g\<rparr>) q) aopts w =
        DeleteAllOf c ctx (Iface T q) aopts w)"
  by (simp add: Get_def Create_def Delete_def Update_def Patch_def DeleteAllOf_def List_def)

theorem capabilities_checked_per_argument_kind_witness:
  "as_ListWrapper (Iface wrapper_type (Ptr 10) :: world iface) = None \<and>
   as_Wrapper (Iface wrapper_type (Ptr 10) :: world iface) = Some (embedded (Ptr 10)) \<and>
   List (NewClient recording_client) (Context ''ctx'') (Iface wrapper_type (Ptr 10)) [] world0 =
     Return (None, \<lparr>heap = (\<lambda>a. ''caller'')(10 := ''set by List''),
                     calls = [Seen ''List'' ''*composite.Unstructured'' (Ptr 10)]\<rparr>) \<and>
   as_Wrapper (Iface list_wrapper_type (Ptr 20) :: world iface) = None \<and>
   as_ListWrapper (Iface list_wrapper_type (Ptr 20) :: world iface) = Some (embedded (Ptr 20)) \<and>
   Get (NewClient recording_client) (Context ''ctx'') foo_bar (Iface list_wrapper_type (Ptr 20))
       [] world0 =
     Return (None, \<lparr>heap = (\<lambda>a. ''caller'')(20 := ''set by Get''),
                     calls = [Seen ''Get'' ''*composite.UnstructuredList'' (Ptr 20)]\<rparr>) \<and>
   GetUnstructured (wrapper_type :: world dyn_type) = Some embedded \<and>
   Update (NewClient recording_client) (Context ''ctx'')
       (Iface (wrapper_type\<lparr>GetUnstructuredList := Some (\<lambda>p w. Panic)\<rparr>) (Ptr 10)) [] world0 =
     Update (NewClient recording_client) (Context ''ctx'') (Iface wrapper_type (Ptr 10)) []
       world0 \<and>
   Update (NewClient recording_client) (Context ''ctx'')
       (Iface (wrapper_type\<lparr>GetUnstructuredList := Some (\<lambda>p w. Panic)\<rparr>) (Ptr 10)) [] world0 =
     Return (None, \<lparr>heap = (\<lambda>a. ''caller'')(11 := ''set by Update''),
                     calls = [Seen ''Update'' ''*unstructured.Unstructured'' (Ptr 11)]\<rparr>)"
  using capabilities_checked_per_argument_kind
    [where list = "Iface wrapper_type (Ptr 10) :: world iface" and u = "embedded (Ptr 10)"
       and obj = "Iface list_wrapper_type (Ptr 20) :: world iface" and ul = "embedded (Ptr 20)"
       and c = "NewClient recording_client" and ctx = "Context ''ctx''" and w = world0
       and key = foo_bar and lopts = "[]" and gopts = "[]" and uopts = "[]"
       and T = wrapper_type and m = embedded and g = "Some (\<lambda>p w. Panic)" and q = "Ptr 10"]
  by (simp add: fixture_defs Update_def)

text \<open>
  C10. When the type implements Wrapper and the accessor returns nil, the six object
  methods of WrapperClient and the two methods of the status client still take the
  substitution branch: the wrapped call receives the nil pointer as a
  \<^verbatim>\<open>*unstructured.Unstructured\<close> (a non-nil interface value carrying a nil pointer),
  and its outcome is the outcome of the method; there is no guard and no error of the
  adapter's own.
\<close>

theorem nil_unstructured_forwarded_unguarded:
  "(as_Wrapper obj = Some u \<and> u w = Return (Nil, w') \<longrightarrow>
      Get c ctx key obj gopts w =
        client_Get (WrapperClient.kube c) ctx key (Unstructured Nil) gopts w' \<and>
      Create c ctx obj copts w =
        client_Create (WrapperClient.kube c) ctx (Unstructured Nil) copts w' \<and>
      Delete c ctx obj dopts w =
        client_Delete (WrapperClient.kube c) ctx (Unstructured Nil) dopts w' \<and>
      Update c ctx obj uopts w =
        client_Update (WrapperClient.kube c) ctx (Unstructured Nil) uopts w' \<and>
      Patch c ctx obj patch popts w =
        client_Patch (WrapperClient.kube c) ctx (Unstructured Nil) patch popts w' \<and>
      DeleteAllOf c ctx obj aopts w =
        client_DeleteAllOf (WrapperClient.kube c) ctx (Unstructured Nil) aopts w' \<and>
      wrapperStatusClient_Update s ctx obj uopts w =
        writer_Update (wrapperStatusClient.kube s) ctx (Unstructured Nil) uopts w' \<and>
      wrapperStatusClient_Patch s ctx obj patch popts w =
        writer_Patch (wrapperStatusClient.kube s) ctx (Unstructured Nil) patch popts w') \<and>
   (Unstructured Nil :: 'w iface) \<noteq> NilIface \<and>
   target (Unstructured Nil :: 'w iface) = Nil \<and>
   as_Wrapper (Unstructured Nil :: 'w iface) = None"
  by (simp add: Get_def Create_def Delete_def Update_def Patch_def DeleteAllOf_def
      wrapperStatusClient_Update_def wrapperStatusClient_Patch_def Unstructured_def
      Unstructured_type_def)

theorem nil_unstructured_forwarded_unguarded_witness:
  "as_Wrapper (Iface nil_wrapper_type (Ptr 40) :: world iface) =
     Some ((\<lambda>p w. Return (Nil, w)) (Ptr 40)) \<and>
   (\<lambda>p w. Return (Nil, w)) (Ptr 40) world0 = Return (Nil, world0) \<and>
   Get (NewClient recording_client) (Context ''ctx'') foo_bar (Iface nil_wrapper_type (Ptr 40))
       [] world0 =
     client_Get recording_client (Context ''ctx'') foo_bar (Unstructured Nil) [] world0 \<and>
   Get (NewClient recording_client) (Context ''ctx'') foo_bar (Iface nil_wrapper_type (Ptr 40))
       [] world0 =
     Return (Some ''nil pointer'',
             \<lparr>heap = (\<lambda>a. ''caller''),
              calls = [Seen ''Get'' ''*unstructured.Unstructured'' Nil]\<rparr>) \<and>
   wrapperStatusClient_Update \<lparr>wrapperStatusClient.kube = recording_writer 0\<rparr>
       (Context ''ctx'') (Iface nil_wrapper_type (Ptr 40)) [] world0 =
     Return (Some ''nil pointer'',
             \<lparr>heap = (\<lambda>a. ''caller''),
              calls = [Seen ''Status.Update'' ''*unstructured.Unstructured'' Nil]\<rparr>)"
  using nil_unstructured_forwarded_unguarded
    [where obj = "Iface nil_wrapper_type (Ptr 40) :: world iface"
       and u = "(\<lambda>p w. Return (Nil, w)) (Ptr 40)" and w = world0 and w' = world0
       and c = "NewClient recording_client" and ctx = "Context ''ctx''" and key = foo_bar
       and gopts = "[]" and uopts = "[]"
       and s = "\<lparr>wrapperStatusClient.kube = recording_writer 0\<rparr>"]
  by (simp add: fixture_defs)

end
